theory Spec2Isabelle
  imports Main "HOL-Library.Word"
begin

unbundle bit_operations_syntax

section \<open>Data model of \<open>arrow/filesystem/localfs.cc\<close>\<close>

text \<open>
  \<open>arrow::Status\<close> and \<open>arrow::Result<T>\<close>: a failing status is a code and a
  message; success is the right injection of a sum. \<open>Status::IOError(a, b, ...)\<close>
  concatenates its arguments into the message.
\<close>

datatype StatusCode = Invalid | IOError | KeyError | TypeError | OutOfMemory | UnknownError

datatype Status = Status (code: StatusCode) (message: string)

definition IsIOError :: "Status \<Rightarrow> bool" where
  "IsIOError st = (code st = IOError)"

datatype FileType = NonExistent | Unknown | File | Directory

text \<open>
  \<open>FileStats\<close>: the members behind \<open>path()\<close>, \<open>type()\<close>, \<open>size()\<close> and \<open>mtime()\<close>.
  Sizes are \<open>int64_t\<close>; a \<open>TimePoint\<close> is a count of nanoseconds held in an \<open>int64_t\<close>.
  A default-constructed \<open>std::string\<close> is empty. The adapters assign the type, the
  size and the time of a record on every path before they return it, so the values
  that the default constructor gives these members never reach a result.
\<close>

record FileStats =
  path :: string
  ftype :: FileType
  fsize :: "64 word"
  mtime :: "64 word"

text \<open>
  The constants \<open>kNoSize\<close> and \<open>kNoTime\<close> come from the headers of
  \<open>arrow/filesystem\<close>; the model takes them as parameters and holds for any values.
\<close>

record sentinels =
  kNoSize :: "64 word"
  kNoTime :: "64 word"

record Selector =
  base_dir :: string
  recursive :: bool
  max_recursion :: int
  allow_non_existent :: bool

record LocalFileSystemOptions =
  use_mmap :: bool

section \<open>Native stat adapter, POSIX\<close>

text \<open>
  \<open>struct timespec\<close> and the fields of \<open>struct stat\<close> that the adapter reads. The
  file-type macros of \<open>sys/stat.h\<close> compare the masked mode with a format constant.
\<close>

record timespec =
  tv_sec :: "64 word"
  tv_nsec :: "64 word"

record struct_stat =
  st_mode :: "32 word"
  st_size :: "64 word"
  st_mtim :: timespec

definition S_IFMT :: "32 word" where "S_IFMT = 0xF000"
definition S_IFREG :: "32 word" where "S_IFREG = 0x8000"
definition S_IFDIR :: "32 word" where "S_IFDIR = 0x4000"

definition S_ISREG :: "32 word \<Rightarrow> bool" where
  "S_ISREG m = (m AND S_IFMT = S_IFREG)"

definition S_ISDIR :: "32 word \<Rightarrow> bool" where
  "S_ISDIR m = (m AND S_IFMT = S_IFDIR)"

text \<open>The values of \<open>errno\<close> that \<open>stat(2)\<close> and \<open>rename(2)\<close> document, and any other.\<close>

datatype errno = ENOENT | ENOTDIR | ELOOP | EACCES | ENAMETOOLONG | ENOMEM | EOVERFLOW
  | EIO | EXDEV | ErrnoOther nat

text \<open>
  \<open>ToTimePoint(const struct timespec&)\<close>: seconds times \<open>10^9\<close> plus nanoseconds, in
  64-bit arithmetic (the model wraps around where the signed C++ arithmetic would
  overflow).
\<close>

definition ToTimePoint :: "timespec \<Rightarrow> 64 word" where
  "ToTimePoint s = tv_sec s * 1000000000 + tv_nsec s"

definition StatToFileStat :: "'z sentinels_scheme \<Rightarrow> struct_stat \<Rightarrow> FileStats" where
  "StatToFileStat K s =
     (let st = \<lparr>path = [], ftype = Unknown, fsize = kNoSize K, mtime = kNoTime K\<rparr>;
          st = (if S_ISREG (st_mode s) then st\<lparr>ftype := File, fsize := st_size s\<rparr>
                else if S_ISDIR (st_mode s) then st\<lparr>ftype := Directory, fsize := kNoSize K\<rparr>
                else st\<lparr>ftype := Unknown, fsize := kNoSize K\<rparr>)
      in st\<lparr>mtime := ToTimePoint (st_mtim s)\<rparr>)"

text \<open>
  The collaborators of the POSIX build, as functions over the state \<open>'s\<close> of the native
  file system: the path resolver (\<open>PlatformFilename\<close>, an opaque type \<open>'fn\<close>), the
  system calls, and the listing, create, delete and stream primitives of
  \<open>arrow::internal\<close> and \<open>arrow::io\<close>. A call that sets \<open>errno\<close> returns it. A stream
  is the handle the collaborator gave out.
\<close>

datatype FileMode = READ | WRITE | READWRITE

datatype InputFile = MemoryMappedFile nat | ReadableFile nat

datatype OutputStream = FileOutputStream nat

record ('s, 'fn) sys = sentinels +
  FromString :: "string \<Rightarrow> Status + 'fn"
  ToNative :: "'fn \<Rightarrow> string"
  ToString :: "'fn \<Rightarrow> string"
  Join :: "'fn \<Rightarrow> 'fn \<Rightarrow> 'fn"
  ErrnoMessage :: "errno \<Rightarrow> string"
  stat :: "string \<Rightarrow> 's \<Rightarrow> (errno + struct_stat) \<times> 's"
  rename :: "string \<Rightarrow> string \<Rightarrow> 's \<Rightarrow> (errno + unit) \<times> 's"
  ListDir :: "'fn \<Rightarrow> 's \<Rightarrow> (Status + 'fn list) \<times> 's"
  FileExists :: "'fn \<Rightarrow> 's \<Rightarrow> (Status + bool) \<times> 's"
  internal_CreateDir :: "'fn \<Rightarrow> 's \<Rightarrow> (Status + unit) \<times> 's"
  internal_CreateDirTree :: "'fn \<Rightarrow> 's \<Rightarrow> (Status + unit) \<times> 's"
  internal_DeleteDirTree :: "'fn \<Rightarrow> 's \<Rightarrow> (Status + bool) \<times> 's"
  internal_DeleteDirContents :: "'fn \<Rightarrow> 's \<Rightarrow> (Status + bool) \<times> 's"
  internal_DeleteFile :: "'fn \<Rightarrow> 's \<Rightarrow> (Status + bool) \<times> 's"
  MemoryMappedFile_Open :: "string \<Rightarrow> FileMode \<Rightarrow> 's \<Rightarrow> (Status + nat) \<times> 's"
  ReadableFile_Open :: "string \<Rightarrow> 's \<Rightarrow> (Status + nat) \<times> 's"
  FileOpenWritable :: "'fn \<Rightarrow> bool \<Rightarrow> bool \<Rightarrow> bool \<Rightarrow> 's \<Rightarrow> (Status + int) \<times> 's"
  FileOutputStream_Open :: "int \<Rightarrow> 's \<Rightarrow> (Status + nat) \<times> 's"
  FileClose :: "int \<Rightarrow> 's \<Rightarrow> (Status + unit) \<times> 's"
  CopyStream :: "InputFile \<Rightarrow> OutputStream \<Rightarrow> nat \<Rightarrow> 's \<Rightarrow> (Status + unit) \<times> 's"
  InputFile_Close :: "InputFile \<Rightarrow> 's \<Rightarrow> (Status + unit) \<times> 's"
  OutputStream_Close :: "OutputStream \<Rightarrow> 's \<Rightarrow> (Status + unit) \<times> 's"

definition ErrnoToStatus :: "('s, 'fn) sys \<Rightarrow> errno \<Rightarrow> string list \<Rightarrow> Status" where
  "ErrnoToStatus w e args = Status IOError (concat args @ ErrnoMessage w e)"

definition StatFile :: "('s, 'fn) sys \<Rightarrow> string \<Rightarrow> 's \<Rightarrow> (Status + FileStats) \<times> 's" where
  "StatFile w p s =
     (let st = \<lparr>path = [], ftype = Unknown, fsize = kNoSize w, mtime = kNoTime w\<rparr> in
      case stat w p s of
        (Inl e, s') \<Rightarrow>
          if e = ENOENT \<or> e = ENOTDIR \<or> e = ELOOP
          then (Inr (st\<lparr>ftype := NonExistent, mtime := kNoTime w, fsize := kNoSize w,
                         path := p\<rparr>), s')
          else (Inl (ErrnoToStatus w e [''Failed stat()ing path '', [CHR 0x27], p, [CHR 0x27]]), s')
      | (Inr r, s') \<Rightarrow> (Inr ((StatToFileStat w r)\<lparr>path := p\<rparr>), s'))"

section \<open>Native stat adapter, Windows\<close>

record FILETIME =
  dwLowDateTime :: "32 word"
  dwHighDateTime :: "32 word"

record BY_HANDLE_FILE_INFORMATION =
  dwFileAttributes :: "32 word"
  ftLastWriteTime :: FILETIME
  nFileSizeHigh :: "32 word"
  nFileSizeLow :: "32 word"

definition FILE_ATTRIBUTE_DIRECTORY :: "32 word" where
  "FILE_ATTRIBUTE_DIRECTORY = 0x10"

definition FILE_ATTRIBUTE_DEVICE :: "32 word" where
  "FILE_ATTRIBUTE_DEVICE = 0x40"

datatype winerror = ERROR_FILE_NOT_FOUND | ERROR_PATH_NOT_FOUND | ERROR_ACCESS_DENIED
  | WinErrorOther nat

type_synonym wstring = "16 word list"

definition kFileTimeEpoch :: "64 word" where
  "kFileTimeEpoch = 11644473600 * 10000000"

definition ToTimePoint_win :: "FILETIME \<Rightarrow> 64 word" where
  "ToTimePoint_win ft =
     (let hundreds = push_bit 32 (ucast (dwHighDateTime ft) :: 64 word)
                       + ucast (dwLowDateTime ft) - kFileTimeEpoch
      in 100 * hundreds)"

definition FileInformationToFileStat ::
  "'z sentinels_scheme \<Rightarrow> BY_HANDLE_FILE_INFORMATION \<Rightarrow> FileStats" where
  "FileInformationToFileStat K info =
     (let st = \<lparr>path = [], ftype = Unknown, fsize = kNoSize K, mtime = kNoTime K\<rparr>;
          st = (if dwFileAttributes info AND FILE_ATTRIBUTE_DIRECTORY \<noteq> 0
                then st\<lparr>ftype := Directory, fsize := kNoSize K\<rparr>
                else st\<lparr>ftype := File,
                        fsize := push_bit 32 (ucast (nFileSizeHigh info) :: 64 word)
                                   + ucast (nFileSizeLow info)\<rparr>)
      in st\<lparr>mtime := ToTimePoint_win (ftLastWriteTime info)\<rparr>)"

record 's win32 = sentinels +
  NativeToString :: "wstring \<Rightarrow> string"
  WinErrorMessage :: "winerror \<Rightarrow> string"
  CreateFileW :: "wstring \<Rightarrow> 's \<Rightarrow> (winerror + nat) \<times> 's"
  GetFileInformationByHandle :: "nat \<Rightarrow> 's \<Rightarrow> (winerror + BY_HANDLE_FILE_INFORMATION) \<times> 's"
  CloseHandle :: "nat \<Rightarrow> 's \<Rightarrow> 's"

definition WinErrorToStatus :: "'s win32 \<Rightarrow> winerror \<Rightarrow> string list \<Rightarrow> Status" where
  "WinErrorToStatus w e args = Status IOError (concat args @ WinErrorMessage w e)"

definition StatFile_win :: "'s win32 \<Rightarrow> wstring \<Rightarrow> 's \<Rightarrow> (Status + FileStats) \<times> 's" where
  "StatFile_win w p s =
     (let bytes_path = NativeToString w p;
          st = \<lparr>path = [], ftype = Unknown, fsize = kNoSize w, mtime = kNoTime w\<rparr> in
      case CreateFileW w p s of
        (Inl err, s1) \<Rightarrow>
          if err = ERROR_FILE_NOT_FOUND \<or> err = ERROR_PATH_NOT_FOUND
          then (Inr (st\<lparr>path := bytes_path, ftype := NonExistent, mtime := kNoTime w,
                         fsize := kNoSize w\<rparr>), s1)
          else (Inl (WinErrorToStatus w err
                  [''Failed querying information for path '', [CHR 0x27], bytes_path,
                   [CHR 0x27]]), s1)
      | (Inr h, s1) \<Rightarrow>
          (case GetFileInformationByHandle w h s1 of
             (Inl err, s2) \<Rightarrow>
               (Inl (WinErrorToStatus w err
                  [''Failed querying information for path '', [CHR 0x27], bytes_path,
                   [CHR 0x27]]), CloseHandle w h s2)
           | (Inr info, s2) \<Rightarrow>
               (Inr ((FileInformationToFileStat w info)\<lparr>path := bytes_path\<rparr>),
                CloseHandle w h s2)))"

section \<open>Directory selector\<close>

text \<open>
  \<open>StatSelector\<close> appends to the vector \<open>out\<close>; the model takes the vector and returns
  it extended. \<open>StatSelector_loop\<close> is the range-for over \<open>children\<close>. The depth is
  an \<open>int32_t\<close>; \<open>nesting_depth + 1\<close> is computed only below \<open>max_recursion\<close>, so it
  does not overflow. The record is moved into the vector before its type is read again;
  the move leaves the type, an enumeration value, as it was. On a failure the caller
  discards the vector, so the model returns the failure alone.
\<close>

function StatSelector ::
    "('s, 'fn) sys \<Rightarrow> 'fn \<Rightarrow> Selector \<Rightarrow> int \<Rightarrow> FileStats list \<Rightarrow> 's
      \<Rightarrow> (Status + FileStats list) \<times> 's"
  and StatSelector_loop ::
    "('s, 'fn) sys \<Rightarrow> 'fn \<Rightarrow> 'fn list \<Rightarrow> Selector \<Rightarrow> int \<Rightarrow> FileStats list \<Rightarrow> 's
      \<Rightarrow> (Status + FileStats list) \<times> 's"
where
  "StatSelector w dir_fn select nesting_depth out s =
     (case ListDir w dir_fn s of
        (Inl status, s1) \<Rightarrow>
          if allow_non_existent select \<and> IsIOError status
          then (case FileExists w dir_fn s1 of
                  (Inl e, s2) \<Rightarrow> (Inl e, s2)
                | (Inr exists, s2) \<Rightarrow>
                    if \<not> exists then (Inr out, s2) else (Inl status, s2))
          else (Inl status, s1)
      | (Inr children, s1) \<Rightarrow>
          StatSelector_loop w dir_fn children select nesting_depth out s1)"
| "StatSelector_loop w dir_fn [] select nesting_depth out s = (Inr out, s)"
| "StatSelector_loop w dir_fn (child_fn # rest) select nesting_depth out s =
     (let full_fn = Join w dir_fn child_fn in
      case StatFile w (ToNative w full_fn) s of
        (Inl e, s1) \<Rightarrow> (Inl e, s1)
      | (Inr st, s1) \<Rightarrow>
          (let out1 = (if ftype st \<noteq> NonExistent then out @ [st] else out) in
           if nesting_depth < max_recursion select \<and> recursive select
              \<and> ftype st = Directory
           then (case StatSelector w full_fn select (nesting_depth + 1) out1 s1 of
                   (Inl e, s2) \<Rightarrow> (Inl e, s2)
                 | (Inr out2, s2) \<Rightarrow>
                     StatSelector_loop w dir_fn rest select nesting_depth out2 s2)
           else StatSelector_loop w dir_fn rest select nesting_depth out1 s1))"
  by pat_completeness auto
termination
  by (relation "inv_image (less_than <*lex*> less_than)
        (\<lambda>x. case x of
           Inl (w, dir_fn, select, d, out, s) \<Rightarrow> (2 * nat (max_recursion select - d) + 1, 0)
         | Inr (w, dir_fn, cs, select, d, out, s) \<Rightarrow>
             (2 * nat (max_recursion select - d), length cs))")
     auto

section \<open>Filesystem facade (\<open>LocalFileSystem\<close>), POSIX build\<close>

definition GetTargetStats ::
  "('s, 'fn) sys \<Rightarrow> string \<Rightarrow> 's \<Rightarrow> (Status + FileStats) \<times> 's" where
  "GetTargetStats w p s =
     (case FromString w p of
        Inl e \<Rightarrow> (Inl e, s)
      | Inr fn \<Rightarrow> StatFile w (ToNative w fn) s)"

definition GetTargetStats_selector ::
  "('s, 'fn) sys \<Rightarrow> Selector \<Rightarrow> 's \<Rightarrow> (Status + FileStats list) \<times> 's" where
  "GetTargetStats_selector w select s =
     (case FromString w (base_dir select) of
        Inl e \<Rightarrow> (Inl e, s)
      | Inr fn \<Rightarrow> StatSelector w fn select 0 [] s)"

definition CreateDir ::
  "('s, 'fn) sys \<Rightarrow> string \<Rightarrow> bool \<Rightarrow> 's \<Rightarrow> (Status + unit) \<times> 's" where
  "CreateDir w p recursive_flag s =
     (case FromString w p of
        Inl e \<Rightarrow> (Inl e, s)
      | Inr fn \<Rightarrow>
          if recursive_flag then internal_CreateDirTree w fn s else internal_CreateDir w fn s)"

definition DeleteDir :: "('s, 'fn) sys \<Rightarrow> string \<Rightarrow> 's \<Rightarrow> (Status + unit) \<times> 's" where
  "DeleteDir w p s =
     (case FromString w p of
        Inl e \<Rightarrow> (Inl e, s)
      | Inr fn \<Rightarrow>
          (case internal_DeleteDirTree w fn s of
             (Inl e, s1) \<Rightarrow> (Inl e, s1)
           | (Inr deleted, s1) \<Rightarrow>
               if deleted then (Inr (), s1)
               else (Inl (Status IOError
                       (''Directory does not exist: '' @ [CHR 0x27] @ p @ [CHR 0x27])), s1)))"

definition DeleteDirContents ::
  "('s, 'fn) sys \<Rightarrow> string \<Rightarrow> 's \<Rightarrow> (Status + unit) \<times> 's" where
  "DeleteDirContents w p s =
     (case FromString w p of
        Inl e \<Rightarrow> (Inl e, s)
      | Inr fn \<Rightarrow>
          (case internal_DeleteDirContents w fn s of
             (Inl e, s1) \<Rightarrow> (Inl e, s1)
           | (Inr deleted, s1) \<Rightarrow>
               if deleted then (Inr (), s1)
               else (Inl (Status IOError
                       (''Directory does not exist: '' @ [CHR 0x27] @ p @ [CHR 0x27])), s1)))"

definition DeleteFile :: "('s, 'fn) sys \<Rightarrow> string \<Rightarrow> 's \<Rightarrow> (Status + unit) \<times> 's" where
  "DeleteFile w p s =
     (case FromString w p of
        Inl e \<Rightarrow> (Inl e, s)
      | Inr fn \<Rightarrow>
          (case internal_DeleteFile w fn s of
             (Inl e, s1) \<Rightarrow> (Inl e, s1)
           | (Inr deleted, s1) \<Rightarrow>
               if deleted then (Inr (), s1)
               else (Inl (Status IOError
                       (''File does not exist: '' @ [CHR 0x27] @ p @ [CHR 0x27])), s1)))"

definition Move ::
  "('s, 'fn) sys \<Rightarrow> string \<Rightarrow> string \<Rightarrow> 's \<Rightarrow> (Status + unit) \<times> 's" where
  "Move w src dest s =
     (case FromString w src of
        Inl e \<Rightarrow> (Inl e, s)
      | Inr sfn \<Rightarrow>
          (case FromString w dest of
             Inl e \<Rightarrow> (Inl e, s)
           | Inr dfn \<Rightarrow>
               (case rename w (ToNative w sfn) (ToNative w dfn) s of
                  (Inl e, s1) \<Rightarrow>
                    (Inl (ErrnoToStatus w e
                       [''Failed renaming '', [CHR 0x27], ToString w sfn, [CHR 0x27],
                        '' to '', [CHR 0x27], ToString w dfn, [CHR 0x27], '': '']), s1)
                | (Inr u, s1) \<Rightarrow> (Inr (), s1))))"

definition OpenInputStreamGeneric ::
  "('s, 'fn) sys \<Rightarrow> string \<Rightarrow> LocalFileSystemOptions \<Rightarrow> 's \<Rightarrow> (Status + InputFile) \<times> 's" where
  "OpenInputStreamGeneric w p options s =
     (if use_mmap options
      then (case MemoryMappedFile_Open w p READ s of
              (Inl e, s1) \<Rightarrow> (Inl e, s1)
            | (Inr file, s1) \<Rightarrow> (Inr (MemoryMappedFile file), s1))
      else (case ReadableFile_Open w p s of
              (Inl e, s1) \<Rightarrow> (Inl e, s1)
            | (Inr file, s1) \<Rightarrow> (Inr (ReadableFile file), s1)))"

definition OpenInputStream ::
  "('s, 'fn) sys \<Rightarrow> LocalFileSystemOptions \<Rightarrow> string \<Rightarrow> 's \<Rightarrow> (Status + InputFile) \<times> 's" where
  "OpenInputStream w options p s = OpenInputStreamGeneric w p options s"

definition OpenInputFile ::
  "('s, 'fn) sys \<Rightarrow> LocalFileSystemOptions \<Rightarrow> string \<Rightarrow> 's \<Rightarrow> (Status + InputFile) \<times> 's" where
  "OpenInputFile w options p s = OpenInputStreamGeneric w p options s"

definition OpenOutputStreamGeneric ::
  "('s, 'fn) sys \<Rightarrow> string \<Rightarrow> bool \<Rightarrow> bool \<Rightarrow> 's \<Rightarrow> (Status + OutputStream) \<times> 's" where
  "OpenOutputStreamGeneric w p truncate_arg append_arg s =
     (let write_only = True in
      case FromString w p of
        Inl e \<Rightarrow> (Inl e, s)
      | Inr fn \<Rightarrow>
          (case FileOpenWritable w fn write_only truncate_arg append_arg s of
             (Inl e, s1) \<Rightarrow> (Inl e, s1)
           | (Inr fd, s1) \<Rightarrow>
               (case FileOutputStream_Open w fd s1 of
                  (Inl st, s2) \<Rightarrow> (Inl st, snd (FileClose w fd s2))
                | (Inr stream, s2) \<Rightarrow> (Inr (FileOutputStream stream), s2))))"

definition OpenOutputStream ::
  "('s, 'fn) sys \<Rightarrow> string \<Rightarrow> 's \<Rightarrow> (Status + OutputStream) \<times> 's" where
  "OpenOutputStream w p s = OpenOutputStreamGeneric w p True False s"

definition OpenAppendStream ::
  "('s, 'fn) sys \<Rightarrow> string \<Rightarrow> 's \<Rightarrow> (Status + OutputStream) \<times> 's" where
  "OpenAppendStream w p s = OpenOutputStreamGeneric w p False True s"

text \<open>
  \<open>CopyFile\<close>, the branch of the POSIX build: a stream copy in chunks of 1 MiB.
\<close>

definition CopyFile ::
  "('s, 'fn) sys \<Rightarrow> LocalFileSystemOptions \<Rightarrow> string \<Rightarrow> string \<Rightarrow> 's
    \<Rightarrow> (Status + unit) \<times> 's" where
  "CopyFile w options src dest s =
     (case FromString w src of
        Inl e \<Rightarrow> (Inl e, s)
      | Inr sfn \<Rightarrow>
          (case FromString w dest of
             Inl e \<Rightarrow> (Inl e, s)
           | Inr dfn \<Rightarrow>
               if ToNative w sfn = ToNative w dfn then (Inr (), s)
               else
                 (case OpenInputStream w options src s of
                    (Inl e, s1) \<Rightarrow> (Inl e, s1)
                  | (Inr is, s1) \<Rightarrow>
                      (case OpenOutputStream w dest s1 of
                         (Inl e, s2) \<Rightarrow> (Inl e, s2)
                       | (Inr os, s2) \<Rightarrow>
                           (case CopyStream w is os (1024 * 1024) s2 of
                              (Inl e, s3) \<Rightarrow> (Inl e, s3)
                            | (Inr u, s3) \<Rightarrow>
                                (case OutputStream_Close w os s3 of
                                   (Inl e, s4) \<Rightarrow> (Inl e, s4)
                                 | (Inr u', s4) \<Rightarrow> InputFile_Close w is s4))))))"

section \<open>Listing without descent\<close>

text \<open>
  The listing of the direct children only, written from the description of the selector:
  list the directory once, stat every child in listing order, leave out the children
  that have vanished. \<open>StatSelector\<close> is compared with it below.
\<close>

fun stat_children ::
  "('s, 'fn) sys \<Rightarrow> 'fn \<Rightarrow> 'fn list \<Rightarrow> FileStats list \<Rightarrow> 's \<Rightarrow> (Status + FileStats list) \<times> 's"
where
  "stat_children w dir_fn [] out s = (Inr out, s)"
| "stat_children w dir_fn (child_fn # rest) out s =
     (case StatFile w (ToNative w (Join w dir_fn child_fn)) s of
        (Inl e, s1) \<Rightarrow> (Inl e, s1)
      | (Inr st, s1) \<Rightarrow>
          stat_children w dir_fn rest (if ftype st = NonExistent then out else out @ [st]) s1)"

definition direct_children ::
  "('s, 'fn) sys \<Rightarrow> 'fn \<Rightarrow> Selector \<Rightarrow> FileStats list \<Rightarrow> 's \<Rightarrow> (Status + FileStats list) \<times> 's"
where
  "direct_children w dir_fn select out s =
     (case ListDir w dir_fn s of
        (Inr children, s1) \<Rightarrow> stat_children w dir_fn children out s1
      | (Inl status, s1) \<Rightarrow>
          if allow_non_existent select \<and> IsIOError status
          then (case FileExists w dir_fn s1 of
                  (Inl e, s2) \<Rightarrow> (Inl e, s2)
                | (Inr exists, s2) \<Rightarrow> if exists then (Inl status, s2) else (Inr out, s2))
          else (Inl status, s1))"

section \<open>Listing with bounded descent\<close>

text \<open>
  The depth-bounded walk, written from the description of the selector: list the
  directory; stat every child in listing order; leave out a child that has vanished and
  append every other; walk a child that is a directory before going on to its next
  sibling, as long as levels of descent remain. \<open>walk_levels w select n\<close> lists a
  directory and descends \<open>n\<close> levels below it; with no level left it lists the direct
  children only. The recursion is on the number of levels, not on a depth counter.
\<close>

definition no_descent :: "'fn \<Rightarrow> FileStats list \<Rightarrow> 's \<Rightarrow> (Status + FileStats list) \<times> 's" where
  "no_descent dir_fn out s = (Inr out, s)"

fun visit_children ::
  "('s, 'fn) sys \<Rightarrow> ('fn \<Rightarrow> FileStats list \<Rightarrow> 's \<Rightarrow> (Status + FileStats list) \<times> 's)
    \<Rightarrow> 'fn \<Rightarrow> 'fn list \<Rightarrow> FileStats list \<Rightarrow> 's \<Rightarrow> (Status + FileStats list) \<times> 's"
where
  "visit_children w descend dir_fn [] out s = (Inr out, s)"
| "visit_children w descend dir_fn (child_fn # rest) out s =
     (case StatFile w (ToNative w (Join w dir_fn child_fn)) s of
        (Inl e, s1) \<Rightarrow> (Inl e, s1)
      | (Inr st, s1) \<Rightarrow>
          if ftype st = NonExistent then visit_children w descend dir_fn rest out s1
          else if ftype st = Directory
          then (case descend (Join w dir_fn child_fn) (out @ [st]) s1 of
                  (Inl e, s2) \<Rightarrow> (Inl e, s2)
                | (Inr out2, s2) \<Rightarrow> visit_children w descend dir_fn rest out2 s2)
          else visit_children w descend dir_fn rest (out @ [st]) s1)"

definition list_and_visit ::
  "('s, 'fn) sys \<Rightarrow> Selector \<Rightarrow> ('fn \<Rightarrow> FileStats list \<Rightarrow> 's \<Rightarrow> (Status + FileStats list) \<times> 's)
    \<Rightarrow> 'fn \<Rightarrow> FileStats list \<Rightarrow> 's \<Rightarrow> (Status + FileStats list) \<times> 's"
where
  "list_and_visit w select descend dir_fn out s =
     (case ListDir w dir_fn s of
        (Inr children, s1) \<Rightarrow> visit_children w descend dir_fn children out s1
      | (Inl status, s1) \<Rightarrow>
          if allow_non_existent select \<and> IsIOError status
          then (case FileExists w dir_fn s1 of
                  (Inl e, s2) \<Rightarrow> (Inl e, s2)
                | (Inr exists, s2) \<Rightarrow> if exists then (Inl status, s2) else (Inr out, s2))
          else (Inl status, s1))"

primrec walk_levels ::
  "('s, 'fn) sys \<Rightarrow> Selector \<Rightarrow> nat \<Rightarrow> 'fn \<Rightarrow> FileStats list \<Rightarrow> 's
    \<Rightarrow> (Status + FileStats list) \<times> 's"
where
  "walk_levels w select 0 = list_and_visit w select no_descent"
| "walk_levels w select (Suc n) = list_and_visit w select (walk_levels w select n)"

section \<open>A small file system to run the model on\<close>

text \<open>
  The directory \<open>/tmp/t\<close> holds the file \<open>a\<close> (10 bytes) and the directory \<open>b\<close>, which
  holds the file \<open>c\<close> (5 bytes); \<open>/dev/null\<close> is a character device; \<open>/root/secret\<close>
  cannot be accessed. The state is the log of the calls made to the collaborators. The
  resolver rejects the empty path and keeps every other string as it is.
\<close>

definition mk_stat :: "32 word \<Rightarrow> 64 word \<Rightarrow> 64 word \<Rightarrow> struct_stat" where
  "mk_stat m n t = \<lparr>st_mode = m, st_size = n, st_mtim = \<lparr>tv_sec = t, tv_nsec = 0\<rparr>\<rparr>"

definition demo_stat :: "string \<Rightarrow> errno + struct_stat" where
  "demo_stat p =
     (if p = ''/tmp/t'' then Inr (mk_stat 0x41ED 4096 100)
      else if p = ''/tmp/t/a'' then Inr (mk_stat 0x81A4 10 200)
      else if p = ''/tmp/t/b'' then Inr (mk_stat 0x41ED 4096 300)
      else if p = ''/tmp/t/b/c'' then Inr (mk_stat 0x81A4 5 400)
      else if p = ''/dev/null'' then Inr (mk_stat 0x21B6 0 500)
      else if p = ''/root/secret'' then Inl EACCES
      else if p = ''/tmp/loop'' then Inl ELOOP
      else if p = ''/tmp/t/a/x'' then Inl ENOTDIR
      else Inl ENOENT)"

definition demo_list :: "string \<Rightarrow> Status + string list" where
  "demo_list p =
     (if p = ''/tmp/t'' then Inr [''a'', ''b'']
      else if p = ''/tmp/t/b'' then Inr [''c'']
      else Inl (Status IOError ''Cannot list directory''))"

definition demo_exists :: "string \<Rightarrow> Status + bool" where
  "demo_exists p =
     (case demo_stat p of
        Inr r \<Rightarrow> Inr True
      | Inl e \<Rightarrow> if e = ENOENT \<or> e = ENOTDIR then Inr False
                 else Inl (Status IOError ''Failed getting information for path''))"

definition demo_sys :: "(string list, string) sys" where
  "demo_sys = \<lparr>
     kNoSize = - 1,
     kNoTime = - 1,
     FromString = (\<lambda>p. if p = [] then Inl (Status Invalid ''Invalid path'') else Inr p),
     ToNative = (\<lambda>fn. fn),
     ToString = (\<lambda>fn. fn),
     Join = (\<lambda>a b. a @ ''/'' @ b),
     ErrnoMessage = (\<lambda>e. if e = EACCES then ''Permission denied'' else ''Error''),
     stat = (\<lambda>p s. (demo_stat p, s @ [''stat''])),
     rename = (\<lambda>a b s. (case demo_stat a of Inl e \<Rightarrow> Inl e | Inr r \<Rightarrow> Inr (), s @ [''rename''])),
     ListDir = (\<lambda>fn s. (demo_list fn, s @ [''ListDir''])),
     FileExists = (\<lambda>fn s. (demo_exists fn, s @ [''FileExists''])),
     internal_CreateDir = (\<lambda>fn s. (Inr (), s @ [''CreateDir''])),
     internal_CreateDirTree = (\<lambda>fn s. (Inr (), s @ [''CreateDirTree''])),
     internal_DeleteDirTree =
       (\<lambda>fn s. (case demo_stat fn of Inl e \<Rightarrow> Inr False | Inr r \<Rightarrow> Inr True,
                 s @ [''DeleteDirTree''])),
     internal_DeleteDirContents =
       (\<lambda>fn s. (case demo_stat fn of Inl e \<Rightarrow> Inr False | Inr r \<Rightarrow> Inr True,
                 s @ [''DeleteDirContents''])),
     internal_DeleteFile =
       (\<lambda>fn s. (case demo_stat fn of Inl e \<Rightarrow> Inr False | Inr r \<Rightarrow> Inr True,
                 s @ [''DeleteFile''])),
     MemoryMappedFile_Open = (\<lambda>p m s. (Inr 3, s @ [''MemoryMappedFile::Open''])),
     ReadableFile_Open = (\<lambda>p s. (Inr 3, s @ [''ReadableFile::Open''])),
     FileOpenWritable = (\<lambda>fn wo t a s. (Inr 4, s @ [''FileOpenWritable''])),
     FileOutputStream_Open = (\<lambda>fd s. (Inr 4, s @ [''FileOutputStream::Open''])),
     FileClose = (\<lambda>fd s. (Inr (), s @ [''FileClose''])),
     CopyStream = (\<lambda>i o' n s. (Inr (), s @ [''CopyStream''])),
     InputFile_Close = (\<lambda>f s. (Inr (), s @ [''Close''])),
     OutputStream_Close = (\<lambda>f s. (Inr (), s @ [''Close'']))\<rparr>"

text \<open>
  The same file system behind a resolver that drops a trailing separator from the path.
\<close>

definition demo_trim :: "(string list, string) sys" where
  "demo_trim = demo_sys\<lparr>FromString :=
     (\<lambda>p. if p = [] then Inl (Status Invalid ''Invalid path'')
          else if last p = CHR ''/'' then Inr (butlast p) else Inr p)\<rparr>"

definition demo_select :: "bool \<Rightarrow> int \<Rightarrow> bool \<Rightarrow> string \<Rightarrow> Selector" where
  "demo_select r m a d =
     \<lparr>base_dir = d, recursive = r, max_recursion = m, allow_non_existent = a\<rparr>"

text \<open>A Windows file information block with the given attribute word.\<close>

definition demo_info :: "32 word \<Rightarrow> BY_HANDLE_FILE_INFORMATION" where
  "demo_info attrs =
     \<lparr>dwFileAttributes = attrs,
      ftLastWriteTime = \<lparr>dwLowDateTime = 0, dwHighDateTime = 0x01D00000\<rparr>,
      nFileSizeHigh = 1, nFileSizeLow = 2\<rparr>"

definition demo_win :: "nat win32" where
  "demo_win = \<lparr>
     kNoSize = - 1,
     kNoTime = - 1,
     NativeToString = map (\<lambda>c. char_of (unat c)),
     WinErrorMessage = (\<lambda>e. ''Error''),
     CreateFileW = (\<lambda>p s. (if p = [0x61] then Inr 7
                              else if p = [0x62] then Inl ERROR_ACCESS_DENIED
                              else Inl ERROR_FILE_NOT_FOUND, s + 1)),
     GetFileInformationByHandle = (\<lambda>h s. (Inr (demo_info 0x20), s)),
     CloseHandle = (\<lambda>h s. s + 1)\<rparr>"

section \<open>Properties of the stat adapters\<close>

declare StatSelector.simps [simp del]

lemma S_ISDIR_not_S_ISREG: "S_ISDIR m \<Longrightarrow> \<not> S_ISREG m"
  by (auto simp: S_ISDIR_def S_ISREG_def S_IFREG_def S_IFDIR_def)

lemma StatToFileStat_fields:
  "ftype (StatToFileStat K r) =
     (if S_ISREG (st_mode r) then File else if S_ISDIR (st_mode r) then Directory else Unknown)"
  "fsize (StatToFileStat K r) = (if S_ISREG (st_mode r) then st_size r else kNoSize K)"
  "mtime (StatToFileStat K r) = ToTimePoint (st_mtim r)"
  "path (StatToFileStat K r) = []"
  by (simp_all add: StatToFileStat_def Let_def)

lemma FileInformationToFileStat_fields:
  "ftype (FileInformationToFileStat K i) =
     (if dwFileAttributes i AND FILE_ATTRIBUTE_DIRECTORY \<noteq> 0 then Directory else File)"
  "fsize (FileInformationToFileStat K i) =
     (if dwFileAttributes i AND FILE_ATTRIBUTE_DIRECTORY \<noteq> 0 then kNoSize K
      else push_bit 32 (ucast (nFileSizeHigh i)) + ucast (nFileSizeLow i))"
  "mtime (FileInformationToFileStat K i) = ToTimePoint_win (ftLastWriteTime i)"
  "path (FileInformationToFileStat K i) = []"
  by (simp_all add: FileInformationToFileStat_def Let_def)

lemma compose_halves:
  "uint (push_bit 32 (ucast (h::32 word) :: 64 word) + ucast (l :: 32 word))
     = uint h * 2 ^ 32 + uint l"
proof -
  have h: "uint h < 2 ^ 32" and l: "uint l < 2 ^ 32" and h0: "0 \<le> uint h" and l0: "0 \<le> uint l"
    using uint_lt2p [of h] uint_lt2p [of l] by simp_all
  have uh: "uint (ucast h :: 64 word) = uint h" and ul: "uint (ucast l :: 64 word) = uint l"
    by (simp_all add: uint_up_ucast is_up)
  have lt: "uint h * 2 ^ 32 + uint l < 2 ^ 64"
    using h l h0 l0 by simp
  have "uint (push_bit 32 (ucast h :: 64 word) + ucast l) = (uint h * 2 ^ 32 + uint l) mod 2 ^ 64"
    by (simp add: push_bit_eq_mult uint_word_ariths uh ul mod_simps)
  also have "\<dots> = uint h * 2 ^ 32 + uint l"
    using lt h0 l0 by simp
  finally show ?thesis .
qed



lemma StatFile_cases:
  assumes "StatFile w p s = (Inr st, s')"
  shows "(\<exists>r. stat w p s = (Inr r, s') \<and> st = (StatToFileStat w r)\<lparr>path := p\<rparr>)
       \<or> (\<exists>e. stat w p s = (Inl e, s') \<and>
             st = \<lparr>path = p, ftype = NonExistent, fsize = kNoSize w, mtime = kNoTime w\<rparr>)"
  using assms by (auto simp: StatFile_def split: prod.splits sum.splits if_splits)

lemma StatFile_win_cases:
  assumes "StatFile_win w p s = (Inr st, s')"
  shows "(\<exists>h s1 i s2. CreateFileW w p s = (Inr h, s1)
            \<and> GetFileInformationByHandle w h s1 = (Inr i, s2)
            \<and> st = (FileInformationToFileStat w i)\<lparr>path := NativeToString w p\<rparr>)
       \<or> (\<exists>e. fst (CreateFileW w p s) = Inl e \<and>
             st = \<lparr>path = NativeToString w p, ftype = NonExistent, fsize = kNoSize w,
                   mtime = kNoTime w\<rparr>)"
  using assms
  by (auto simp: StatFile_win_def Let_def split: prod.splits sum.splits if_splits)

section \<open>Properties of the selector\<close>

lemma StatSelector_listing_failed:
  assumes "ListDir w dir_fn s = (Inl status, s1)"
  shows "StatSelector w dir_fn select d out s =
     (if allow_non_existent select \<and> IsIOError status
      then (case FileExists w dir_fn s1 of
              (Inl e, s2) \<Rightarrow> (Inl e, s2)
            | (Inr exists, s2) \<Rightarrow> if exists then (Inl status, s2) else (Inr out, s2))
      else (Inl status, s1))"
  using assms by (simp add: StatSelector.simps split: prod.splits sum.splits)

lemma loop_directory_child:
  assumes "StatFile w (ToNative w (Join w dir_fn c)) s = (Inr st, s1)"
    and "ftype st = Directory"
  shows "StatSelector_loop w dir_fn (c # cs) select d out s =
     (if d < max_recursion select \<and> recursive select
      then (case StatSelector w (Join w dir_fn c) select (d + 1) (out @ [st]) s1 of
              (Inl e, s2) \<Rightarrow> (Inl e, s2)
            | (Inr out2, s2) \<Rightarrow> StatSelector_loop w dir_fn cs select d out2 s2)
      else StatSelector_loop w dir_fn cs select d (out @ [st]) s1)"
  using assms by (simp add: Let_def)

lemma loop_is_stat_children:
  "\<not> (recursive select \<and> d < max_recursion select) \<Longrightarrow>
   StatSelector_loop w dir_fn cs select d out s = stat_children w dir_fn cs out s"
  by (induction cs arbitrary: out s) (auto simp: Let_def split: prod.splits sum.splits)

lemma StatSelector_is_direct_children:
  "\<not> (recursive select \<and> d < max_recursion select) \<Longrightarrow>
   StatSelector w dir_fn select d out s = direct_children w dir_fn select out s"
  by (auto simp: StatSelector.simps direct_children_def loop_is_stat_children
           split: prod.splits sum.splits)

lemma visit_without_descent:
  "visit_children w no_descent dir_fn cs out s = stat_children w dir_fn cs out s"
  by (induction cs arbitrary: out s) (auto simp: no_descent_def split: prod.splits sum.splits)

lemma walk_levels_unfold:
  "walk_levels w select n =
     list_and_visit w select (case n of 0 \<Rightarrow> no_descent | Suc m \<Rightarrow> walk_levels w select m)"
  by (cases n) simp_all

lemma StatSelector_by_loop:
  assumes "\<And>cs out' s'. StatSelector_loop w dir_fn cs select d out' s'
             = visit_children w descend dir_fn cs out' s'"
  shows "StatSelector w dir_fn select d out s = list_and_visit w select descend dir_fn out s"
  by (simp add: StatSelector.simps list_and_visit_def assms split: prod.splits sum.splits)

lemma loop_is_visit_children:
  "(if recursive select then nat (max_recursion select - d) else 0) = n \<Longrightarrow>
   StatSelector_loop w dir_fn cs select d out s =
     visit_children w (case n of 0 \<Rightarrow> no_descent | Suc m \<Rightarrow> walk_levels w select m)
       dir_fn cs out s"
proof (induction n arbitrary: d dir_fn cs out s)
  case 0
  then have c: "\<not> (d < max_recursion select \<and> recursive select)"
    by (auto split: if_splits)
  show ?case
    using c
    by (induction cs arbitrary: out s)
       (auto simp: Let_def no_descent_def split: prod.splits sum.splits)
next
  case (Suc n)
  then have c: "d < max_recursion select \<and> recursive select"
    by (auto split: if_splits)
  then have n: "(if recursive select then nat (max_recursion select - (d + 1)) else 0) = n"
    using Suc.prems by (auto split: if_splits)
  have below: "StatSelector w fn select (d + 1) out' s' = walk_levels w select n fn out' s'"
    for fn out' s'
    using StatSelector_by_loop [of w fn select "d + 1"
        "case n of 0 \<Rightarrow> no_descent | Suc m \<Rightarrow> walk_levels w select m" out' s']
      Suc.IH [OF n]
    by (simp add: walk_levels_unfold [of w select n])
  show ?case
    using c
    by (induction cs arbitrary: out s)
       (auto simp: Let_def below split: prod.splits sum.splits)
qed

lemma StatSelector_is_walk:
  "StatSelector w dir_fn select d out s =
     walk_levels w select (if recursive select then nat (max_recursion select - d) else 0)
       dir_fn out s"
proof -
  let ?n = "if recursive select then nat (max_recursion select - d) else 0"
  have h: "StatSelector w dir_fn select d out s =
     list_and_visit w select (case ?n of 0 \<Rightarrow> no_descent | Suc m \<Rightarrow> walk_levels w select m)
       dir_fn out s"
    by (rule StatSelector_by_loop) (rule loop_is_visit_children [OF refl])
  show ?thesis
    by (subst walk_levels_unfold) (rule h)
qed

lemma walk_zero_is_direct_children:
  "walk_levels w select 0 dir_fn out s = direct_children w dir_fn select out s"
  by (simp add: list_and_visit_def direct_children_def visit_without_descent
      split: prod.splits sum.splits)

section \<open>The model run on the small file system\<close>

lemma demo_paths:
  "FromString demo_sys ''/tmp/t'' = Inr ''/tmp/t''"
  "ToNative demo_sys fn = fn"
  "Join demo_sys ''/tmp/t'' ''a'' = ''/tmp/t/a''"
  "Join demo_sys ''/tmp/t'' ''b'' = ''/tmp/t/b''"
  "Join demo_sys ''/tmp/t/b'' ''c'' = ''/tmp/t/b/c''"
  "ListDir demo_sys ''/tmp/t'' s = (Inr [''a'', ''b''], s @ [''ListDir''])"
  "ListDir demo_sys ''/tmp/t/b'' s = (Inr [''c''], s @ [''ListDir''])"
  by (simp_all add: demo_sys_def demo_list_def)

lemma demo_file_a:
  "StatFile demo_sys ''/tmp/t/a'' s =
     (Inr \<lparr>path = ''/tmp/t/a'', ftype = File, fsize = 10, mtime = 200000000000\<rparr>,
      s @ [''stat''])"
  by (simp add: StatFile_def demo_sys_def demo_stat_def mk_stat_def StatToFileStat_def
      S_ISREG_def S_ISDIR_def S_IFMT_def S_IFREG_def S_IFDIR_def ToTimePoint_def)

lemma demo_dir_b:
  "StatFile demo_sys ''/tmp/t/b'' s =
     (Inr \<lparr>path = ''/tmp/t/b'', ftype = Directory, fsize = - 1, mtime = 300000000000\<rparr>,
      s @ [''stat''])"
  by (simp add: StatFile_def demo_sys_def demo_stat_def mk_stat_def StatToFileStat_def
      S_ISREG_def S_ISDIR_def S_IFMT_def S_IFREG_def S_IFDIR_def ToTimePoint_def)

lemma demo_file_c:
  "StatFile demo_sys ''/tmp/t/b/c'' s =
     (Inr \<lparr>path = ''/tmp/t/b/c'', ftype = File, fsize = 5, mtime = 400000000000\<rparr>,
      s @ [''stat''])"
  by (simp add: StatFile_def demo_sys_def demo_stat_def mk_stat_def StatToFileStat_def
      S_ISREG_def S_ISDIR_def S_IFMT_def S_IFREG_def S_IFDIR_def ToTimePoint_def)

lemma demo_dev_null:
  "StatFile demo_sys ''/dev/null'' [] =
     (Inr \<lparr>path = ''/dev/null'', ftype = Unknown, fsize = - 1, mtime = 500000000000\<rparr>,
      [''stat''])"
  by (simp add: StatFile_def demo_sys_def demo_stat_def mk_stat_def StatToFileStat_def
      S_ISREG_def S_ISDIR_def S_IFMT_def S_IFREG_def S_IFDIR_def ToTimePoint_def)

lemma demo_win_a:
  "StatFile_win demo_win [0x61] 0 =
     (Inr \<lparr>path = ''a'', ftype = File, fsize = 4294967298, mtime = 1415965319374438400\<rparr>, 2)"
  by (simp add: StatFile_win_def demo_win_def demo_info_def FileInformationToFileStat_def
      FILE_ATTRIBUTE_DIRECTORY_def ToTimePoint_win_def kFileTimeEpoch_def char_of_def bit_0)

lemma demo_gone:
  "ListDir demo_sys ''/gone'' [] = (Inl (Status IOError ''Cannot list directory''), [''ListDir''])"
  "FileExists demo_sys ''/gone'' [''ListDir''] = (Inr False, [''ListDir'', ''FileExists''])"
  "IsIOError (Status IOError ''Cannot list directory'')"
  by (simp_all add: demo_sys_def demo_list_def demo_exists_def demo_stat_def IsIOError_def)

lemma demo_secret:
  "ListDir demo_sys ''/root/secret'' [] =
     (Inl (Status IOError ''Cannot list directory''), [''ListDir''])"
  "FileExists demo_sys ''/root/secret'' [''ListDir''] =
     (Inl (Status IOError ''Failed getting information for path''),
      [''ListDir'', ''FileExists''])"
  by (simp_all add: demo_sys_def demo_list_def demo_exists_def demo_stat_def)

lemma demo_direct_children:
  "direct_children demo_sys ''/tmp/t'' (demo_select True 0 False ''/tmp/t'') [] [] =
     (Inr [\<lparr>path = ''/tmp/t/a'', ftype = File, fsize = 10, mtime = 200000000000\<rparr>,
           \<lparr>path = ''/tmp/t/b'', ftype = Directory, fsize = - 1, mtime = 300000000000\<rparr>],
      [''ListDir'', ''stat'', ''stat''])"
  by (simp add: direct_children_def demo_paths demo_dir_b demo_file_a)

lemma demo_descent:
  "StatSelector demo_sys ''/tmp/t'' (demo_select True 1 False ''/tmp/t'') 0 [] [] =
     (Inr [\<lparr>path = ''/tmp/t/a'', ftype = File, fsize = 10, mtime = 200000000000\<rparr>,
           \<lparr>path = ''/tmp/t/b'', ftype = Directory, fsize = - 1, mtime = 300000000000\<rparr>,
           \<lparr>path = ''/tmp/t/b/c'', ftype = File, fsize = 5, mtime = 400000000000\<rparr>],
      [''ListDir'', ''stat'', ''stat'', ''ListDir'', ''stat''])"
  by (simp add: StatSelector.simps demo_paths demo_dir_b demo_file_a demo_file_c
      demo_select_def)

lemma demo_walk_one_level:
  "walk_levels demo_sys (demo_select True 1 False ''/tmp/t'') (Suc 0) ''/tmp/t'' [] [] =
     (Inr [\<lparr>path = ''/tmp/t/a'', ftype = File, fsize = 10, mtime = 200000000000\<rparr>,
           \<lparr>path = ''/tmp/t/b'', ftype = Directory, fsize = - 1, mtime = 300000000000\<rparr>,
           \<lparr>path = ''/tmp/t/b/c'', ftype = File, fsize = 5, mtime = 400000000000\<rparr>],
      [''ListDir'', ''stat'', ''stat'', ''ListDir'', ''stat''])"
  by (simp add: list_and_visit_def no_descent_def demo_paths demo_dir_b demo_file_a demo_file_c)

section \<open>The native stat adapter\<close>

text \<open>
  Claim C2, as amended. Every record the adapter returns, on POSIX and on Windows, has
  the no-size sentinel when its type is not \<open>File\<close> and the no-time sentinel when its
  type is \<open>NonExistent\<close>. A record of any other type, \<open>Unknown\<close> included, carries
  the converted native modification time, and a \<open>File\<close> carries the native length.
\<close>

theorem stat_adapter_sentinels:
  "(StatFile w p s = (Inr st, s') \<longrightarrow>
      (ftype st \<noteq> File \<longrightarrow> fsize st = kNoSize w)
      \<and> (ftype st = NonExistent \<longrightarrow> mtime st = kNoTime w)
      \<and> (ftype st \<noteq> NonExistent \<longrightarrow>
           (\<exists>r. stat w p s = (Inr r, s') \<and> mtime st = ToTimePoint (st_mtim r)
                \<and> (ftype st = File \<longrightarrow> fsize st = st_size r))))
   \<and> (StatFile_win v n t = (Inr st', t') \<longrightarrow>
      (ftype st' \<noteq> File \<longrightarrow> fsize st' = kNoSize v)
      \<and> (ftype st' = NonExistent \<longrightarrow> mtime st' = kNoTime v)
      \<and> (ftype st' \<noteq> NonExistent \<longrightarrow>
           (\<exists>h t1 i t2. CreateFileW v n t = (Inr h, t1)
                \<and> GetFileInformationByHandle v h t1 = (Inr i, t2)
                \<and> mtime st' = ToTimePoint_win (ftLastWriteTime i)
                \<and> (ftype st' = File \<longrightarrow>
                     fsize st' = push_bit 32 (ucast (nFileSizeHigh i)) + ucast (nFileSizeLow i)))))"
proof (intro conjI impI)
  assume a: "StatFile w p s = (Inr st, s')"
  note c = StatFile_cases [OF a]
  show "ftype st \<noteq> File \<Longrightarrow> fsize st = kNoSize w"
    using c by (auto simp: StatToFileStat_fields split: if_splits)
  show "ftype st = NonExistent \<Longrightarrow> mtime st = kNoTime w"
    using c by (auto simp: StatToFileStat_fields split: if_splits)
  show "ftype st \<noteq> NonExistent \<Longrightarrow>
      \<exists>r. stat w p s = (Inr r, s') \<and> mtime st = ToTimePoint (st_mtim r)
                \<and> (ftype st = File \<longrightarrow> fsize st = st_size r)"
    using c by (auto simp: StatToFileStat_fields split: if_splits)
next
  assume a: "StatFile_win v n t = (Inr st', t')"
  note c = StatFile_win_cases [OF a]
  show "ftype st' \<noteq> File \<Longrightarrow> fsize st' = kNoSize v"
    using c by (auto simp: FileInformationToFileStat_fields split: if_splits)
  show "ftype st' = NonExistent \<Longrightarrow> mtime st' = kNoTime v"
    using c by (auto simp: FileInformationToFileStat_fields split: if_splits)
  show "ftype st' \<noteq> NonExistent \<Longrightarrow>
      \<exists>h t1 i t2. CreateFileW v n t = (Inr h, t1)
                \<and> GetFileInformationByHandle v h t1 = (Inr i, t2)
                \<and> mtime st' = ToTimePoint_win (ftLastWriteTime i)
                \<and> (ftype st' = File \<longrightarrow>
                     fsize st' = push_bit 32 (ucast (nFileSizeHigh i)) + ucast (nFileSizeLow i))"
    using c by (auto simp: FileInformationToFileStat_fields split: if_splits)
qed

theorem stat_adapter_sentinels_witness:
  "StatFile demo_sys ''/dev/null'' [] =
     (Inr \<lparr>path = ''/dev/null'', ftype = Unknown, fsize = - 1, mtime = 500000000000\<rparr>,
      [''stat''])
   \<and> kNoSize demo_sys = - 1
   \<and> StatFile_win demo_win [0x61] 0 =
     (Inr \<lparr>path = ''a'', ftype = File, fsize = 4294967298, mtime = 1415965319374438400\<rparr>, 2)
   \<and> (\<exists>r. stat demo_sys ''/dev/null'' [] = (Inr r, [''stat''])
          \<and> ToTimePoint (st_mtim r) = 500000000000)"
  using stat_adapter_sentinels [of demo_sys "''/dev/null''" "[]"
      "\<lparr>path = ''/dev/null'', ftype = Unknown, fsize = - 1, mtime = 500000000000\<rparr>"
      "[''stat'']" demo_win "[0x61]" 0
      "\<lparr>path = ''a'', ftype = File, fsize = 4294967298, mtime = 1415965319374438400\<rparr>" 2]
    demo_dev_null demo_win_a
  by (simp add: demo_sys_def)

text \<open>
  Claim C2 as stated fails for \<open>Unknown\<close>: the record of a character device has a
  modification time that is not the sentinel.
\<close>

theorem unknown_entity_keeps_mtime_counterexample:
  "StatFile demo_sys ''/dev/null'' [] =
     (Inr \<lparr>path = ''/dev/null'', ftype = Unknown, fsize = - 1, mtime = 500000000000\<rparr>,
      [''stat''])
   \<and> kNoTime demo_sys \<noteq> 500000000000"
  using demo_dev_null by (simp add: demo_sys_def)

text \<open>
  Claim C4, as amended. On POSIX a regular file becomes \<open>File\<close> with the reported
  length, a directory becomes \<open>Directory\<close> with the no-size sentinel, and every other
  mode becomes \<open>Unknown\<close> with the no-size sentinel. On Windows there are two cases
  only: the directory attribute gives \<open>Directory\<close> with the no-size sentinel, and its
  absence gives \<open>File\<close> whose size is the high word times \<open>2^32\<close> plus the low word.
\<close>

theorem stat_adapter_type_mapping:
  "(S_ISREG (st_mode r) \<longrightarrow>
      ftype (StatToFileStat K r) = File \<and> fsize (StatToFileStat K r) = st_size r)
   \<and> (S_ISDIR (st_mode r) \<longrightarrow>
      ftype (StatToFileStat K r) = Directory \<and> fsize (StatToFileStat K r) = kNoSize K)
   \<and> (\<not> S_ISREG (st_mode r) \<and> \<not> S_ISDIR (st_mode r) \<longrightarrow>
      ftype (StatToFileStat K r) = Unknown \<and> fsize (StatToFileStat K r) = kNoSize K)
   \<and> (dwFileAttributes i AND FILE_ATTRIBUTE_DIRECTORY \<noteq> 0 \<longrightarrow>
      ftype (FileInformationToFileStat K i) = Directory
      \<and> fsize (FileInformationToFileStat K i) = kNoSize K)
   \<and> (dwFileAttributes i AND FILE_ATTRIBUTE_DIRECTORY = 0 \<longrightarrow>
      ftype (FileInformationToFileStat K i) = File
      \<and> uint (fsize (FileInformationToFileStat K i))
          = uint (nFileSizeHigh i) * 2 ^ 32 + uint (nFileSizeLow i))"
  using S_ISDIR_not_S_ISREG [of "st_mode r"]
  by (simp add: StatToFileStat_fields FileInformationToFileStat_fields compose_halves)

theorem stat_adapter_type_mapping_witness:
  "S_ISREG (st_mode (mk_stat 0x81A4 10 200))
   \<and> ftype (StatToFileStat demo_sys (mk_stat 0x81A4 10 200)) = File
   \<and> fsize (StatToFileStat demo_sys (mk_stat 0x81A4 10 200)) = 10
   \<and> dwFileAttributes (demo_info 0x20) AND FILE_ATTRIBUTE_DIRECTORY = 0
   \<and> ftype (FileInformationToFileStat demo_sys (demo_info 0x20)) = File
   \<and> uint (fsize (FileInformationToFileStat demo_sys (demo_info 0x20))) = 4294967298"
proof -
  have a: "S_ISREG (st_mode (mk_stat 0x81A4 10 200))"
    by (simp add: S_ISREG_def S_IFMT_def S_IFREG_def mk_stat_def)
  have b: "dwFileAttributes (demo_info 0x20) AND FILE_ATTRIBUTE_DIRECTORY = 0"
    by (simp add: demo_info_def FILE_ATTRIBUTE_DIRECTORY_def)
  have c: "st_size (mk_stat 0x81A4 10 200) = 10" "nFileSizeHigh (demo_info 0x20) = 1"
    "nFileSizeLow (demo_info 0x20) = 2"
    by (simp_all add: mk_stat_def demo_info_def)
  show ?thesis
    using stat_adapter_type_mapping [of "mk_stat 0x81A4 10 200" demo_sys "demo_info 0x20"] a b c
    by simp
qed

text \<open>
  Claim C4 as stated fails on Windows: an entity that is a device, not a directory,
  is reported as a \<open>File\<close> with a size, not as \<open>Unknown\<close> with the sentinel.
\<close>

theorem windows_device_is_file_counterexample:
  "dwFileAttributes (demo_info FILE_ATTRIBUTE_DEVICE) AND FILE_ATTRIBUTE_DIRECTORY = 0
   \<and> ftype (FileInformationToFileStat demo_win (demo_info FILE_ATTRIBUTE_DEVICE)) = File
   \<and> fsize (FileInformationToFileStat demo_win (demo_info FILE_ATTRIBUTE_DEVICE)) = 4294967298
   \<and> kNoSize demo_win \<noteq> 4294967298"
  by (simp add: FileInformationToFileStat_fields demo_info_def FILE_ATTRIBUTE_DIRECTORY_def
      FILE_ATTRIBUTE_DEVICE_def demo_win_def)



text \<open>
  Claim C10, as amended. A record returned by the POSIX adapter has the queried native
  string as its path, and one returned by the Windows adapter has the string form
  (\<open>NativeToString\<close>) of the queried native path. So a successful \<open>GetTargetStats\<close> of
  \<open>p\<close> yields the native string of the resolved path, \<open>ToNative\<close> of \<open>FromString p\<close>.
\<close>

theorem stat_path_is_queried_path:
  "(StatFile w n s = (Inr st, s') \<longrightarrow> path st = n)
   \<and> (StatFile_win v m t = (Inr st', t') \<longrightarrow> path st' = NativeToString v m)
   \<and> (FromString w p = Inr fn \<and> GetTargetStats w p s = (Inr st, s') \<longrightarrow>
        path st = ToNative w fn)"
proof -
  have posix: "path st = n" if "StatFile w n s = (Inr st, s')" for n st s s'
    using StatFile_cases [OF that] by auto
  have win: "path st' = NativeToString v m" if "StatFile_win v m t = (Inr st', t')"
    using StatFile_win_cases [OF that] by auto
  have one: "path st = ToNative w fn"
    if "FromString w p = Inr fn" "GetTargetStats w p s = (Inr st, s')"
    using that posix [of "ToNative w fn" s st s'] by (simp add: GetTargetStats_def)
  show ?thesis
    using posix [of n s st s'] win one by auto
qed

theorem stat_path_is_queried_path_witness:
  "FromString demo_sys ''/tmp/t/a'' = Inr ''/tmp/t/a''
   \<and> ToNative demo_sys ''/tmp/t/a'' = ''/tmp/t/a''
   \<and> GetTargetStats demo_sys ''/tmp/t/a'' [] =
        (Inr \<lparr>path = ''/tmp/t/a'', ftype = File, fsize = 10, mtime = 200000000000\<rparr>,
         [''stat''])
   \<and> path \<lparr>path = ''/tmp/t/a'', ftype = File, fsize = 10, mtime = 200000000000\<rparr>
        = ''/tmp/t/a''
   \<and> StatFile_win demo_win [0x61] 0 =
        (Inr \<lparr>path = ''a'', ftype = File, fsize = 4294967298, mtime = 1415965319374438400\<rparr>, 2)
   \<and> NativeToString demo_win [0x61] = ''a''"
proof -
  have a: "FromString demo_sys ''/tmp/t/a'' = Inr ''/tmp/t/a''"
    and b: "ToNative demo_sys ''/tmp/t/a'' = ''/tmp/t/a''"
    by (simp_all add: demo_sys_def)
  have g: "GetTargetStats demo_sys ''/tmp/t/a'' [] =
        (Inr \<lparr>path = ''/tmp/t/a'', ftype = File, fsize = 10, mtime = 200000000000\<rparr>,
         [''stat''])"
    using demo_file_a [of "[]"] by (simp add: GetTargetStats_def a b)
  show ?thesis
    using stat_path_is_queried_path [of demo_sys "''/tmp/t/a''" "[]"
        "\<lparr>path = ''/tmp/t/a'', ftype = File, fsize = 10, mtime = 200000000000\<rparr>"
        "[''stat'']" demo_win "[0x61]" 0
        "\<lparr>path = ''a'', ftype = File, fsize = 4294967298, mtime = 1415965319374438400\<rparr>" 2
        "''/tmp/t/a''" "''/tmp/t/a''"]
      a b g demo_win_a
    by simp
qed

text \<open>
  Claim C10 as stated fails where the resolver does not keep the string: behind a
  resolver that drops the trailing separator, \<open>GetTargetStats\<close> of \<open>/tmp/t/\<close> succeeds
  with the path \<open>/tmp/t\<close>, which is not the input.
\<close>

theorem stat_path_differs_from_input_counterexample:
  "FromString demo_trim ''/tmp/t/'' = Inr ''/tmp/t''
   \<and> GetTargetStats demo_trim ''/tmp/t/'' [] =
        (Inr \<lparr>path = ''/tmp/t'', ftype = Directory, fsize = - 1, mtime = 100000000000\<rparr>,
         [''stat''])
   \<and> ''/tmp/t'' \<noteq> ''/tmp/t/''"
  by (simp add: GetTargetStats_def StatFile_def demo_trim_def demo_sys_def demo_stat_def
      mk_stat_def StatToFileStat_def S_ISREG_def S_ISDIR_def S_IFMT_def S_IFREG_def
      S_IFDIR_def ToTimePoint_def)

section \<open>The directory selector\<close>

text \<open>
  Claim C3, as amended. The case of a base directory that is missing at the top-level
  call is handled inside \<open>StatSelector\<close>, at any depth and for any accumulator: when
  the listing fails with an I/O failure and the directory is not there, \<open>StatSelector\<close>
  returns its accumulator under \<open>allow_non_existent\<close> and the listing failure
  otherwise. \<open>GetTargetStats\<close> for a selector resolves the base directory and returns
  what \<open>StatSelector\<close> returns at depth 0 from the empty accumulator.
\<close>

theorem missing_base_dir_handled_by_StatSelector:
  assumes "FromString w (base_dir select) = Inr fn"
    and "ListDir w fn s = (Inl status, s1)"
    and "IsIOError status"
    and "FileExists w fn s1 = (Inr False, s2)"
  shows "(allow_non_existent select \<longrightarrow>
            StatSelector w fn select d out s = (Inr out, s2)
            \<and> GetTargetStats_selector w select s = (Inr [], s2))
       \<and> (\<not> allow_non_existent select \<longrightarrow>
            StatSelector w fn select d out s = (Inl status, s1)
            \<and> GetTargetStats_selector w select s = (Inl status, s1))
       \<and> GetTargetStats_selector w select s = StatSelector w fn select 0 [] s"
  using assms(1,3,4)
  by (simp add: GetTargetStats_selector_def StatSelector_listing_failed [OF assms(2)])

theorem missing_base_dir_handled_by_StatSelector_witness:
  "FromString demo_sys (base_dir (demo_select True 1 True ''/gone'')) = Inr ''/gone''
   \<and> ListDir demo_sys ''/gone'' [] = (Inl (Status IOError ''Cannot list directory''), [''ListDir''])
   \<and> IsIOError (Status IOError ''Cannot list directory'')
   \<and> FileExists demo_sys ''/gone'' [''ListDir''] = (Inr False, [''ListDir'', ''FileExists''])
   \<and> allow_non_existent (demo_select True 1 True ''/gone'')
   \<and> GetTargetStats_selector demo_sys (demo_select True 1 True ''/gone'') [] =
        (Inr [], [''ListDir'', ''FileExists''])
   \<and> StatSelector demo_sys ''/gone'' (demo_select True 1 True ''/gone'') 0 [] [] =
        (Inr [], [''ListDir'', ''FileExists''])"
proof -
  have a: "FromString demo_sys (base_dir (demo_select True 1 True ''/gone'')) = Inr ''/gone''"
    by (simp add: demo_sys_def demo_select_def)
  show ?thesis
    using missing_base_dir_handled_by_StatSelector [OF a demo_gone(1) demo_gone(3) demo_gone(2),
        of 0 "[]"] a demo_gone
    by (simp add: demo_select_def)
qed

text \<open>
  Claim C3 as stated fails: \<open>StatSelector\<close> itself, called below the top level (here
  at depth 3 with a non-empty accumulator) on a directory that is missing, returns
  success under \<open>allow_non_existent\<close>.
\<close>

theorem StatSelector_handles_missing_dir_counterexample:
  "ListDir demo_sys ''/gone'' [] = (Inl (Status IOError ''Cannot list directory''), [''ListDir''])
   \<and> StatSelector demo_sys ''/gone'' (demo_select True 5 True ''/tmp/t'') 3
        [\<lparr>path = ''/tmp/t/a'', ftype = File, fsize = 10, mtime = 200000000000\<rparr>] [] =
       (Inr [\<lparr>path = ''/tmp/t/a'', ftype = File, fsize = 10, mtime = 200000000000\<rparr>],
        [''ListDir'', ''FileExists''])"
  using demo_gone
  by (simp add: StatSelector_listing_failed [OF demo_gone(1)] demo_select_def)

text \<open>
  Claim C6, as amended. When the listing of a directory fails: with
  \<open>allow_non_existent\<close> set and an I/O failure, the existence of the directory is
  checked again (\<open>FileExists\<close>); if the directory is gone \<open>StatSelector\<close> succeeds and
  has appended nothing, if it is still there the listing failure is returned, and if
  the check itself fails, the failure of the check is returned. With
  \<open>allow_non_existent\<close> unset or a failure of another kind, the listing failure is
  returned unchanged and no check is made.
\<close>

theorem listing_failure_policy:
  assumes "ListDir w dir_fn s = (Inl status, s1)"
  shows "(allow_non_existent select \<and> IsIOError status
            \<and> FileExists w dir_fn s1 = (Inr False, s2) \<longrightarrow>
            StatSelector w dir_fn select d out s = (Inr out, s2))
       \<and> (allow_non_existent select \<and> IsIOError status
            \<and> FileExists w dir_fn s1 = (Inr True, s2) \<longrightarrow>
            StatSelector w dir_fn select d out s = (Inl status, s2))
       \<and> (allow_non_existent select \<and> IsIOError status
            \<and> FileExists w dir_fn s1 = (Inl e, s2) \<longrightarrow>
            StatSelector w dir_fn select d out s = (Inl e, s2))
       \<and> (\<not> (allow_non_existent select \<and> IsIOError status) \<longrightarrow>
            StatSelector w dir_fn select d out s = (Inl status, s1))"
  by (simp add: StatSelector_listing_failed [OF assms])

theorem listing_failure_policy_witness:
  "ListDir demo_sys ''/gone'' [] = (Inl (Status IOError ''Cannot list directory''), [''ListDir''])
   \<and> allow_non_existent (demo_select True 1 True ''/gone'')
   \<and> IsIOError (Status IOError ''Cannot list directory'')
   \<and> FileExists demo_sys ''/gone'' [''ListDir''] = (Inr False, [''ListDir'', ''FileExists''])
   \<and> StatSelector demo_sys ''/gone'' (demo_select True 1 True ''/gone'') 0 [] [] =
        (Inr [], [''ListDir'', ''FileExists''])
   \<and> StatSelector demo_sys ''/gone'' (demo_select True 1 False ''/gone'') 0 [] [] =
        (Inl (Status IOError ''Cannot list directory''), [''ListDir''])"
  using listing_failure_policy [OF demo_gone(1), of "demo_select True 1 True ''/gone''"
      "[''ListDir'', ''FileExists'']" 0 "[]"]
    listing_failure_policy [OF demo_gone(1), of "demo_select True 1 False ''/gone''"
      "[''ListDir'', ''FileExists'']" 0 "[]"]
    demo_gone
  by (simp add: demo_select_def)

text \<open>
  Claim C6 as stated fails when the second check fails: the failure returned is the
  one of the check, not the listing failure.
\<close>

theorem recheck_failure_replaces_listing_failure_counterexample:
  "ListDir demo_sys ''/root/secret'' [] =
     (Inl (Status IOError ''Cannot list directory''), [''ListDir''])
   \<and> StatSelector demo_sys ''/root/secret'' (demo_select False 0 True ''/root/secret'') 0 [] [] =
       (Inl (Status IOError ''Failed getting information for path''),
        [''ListDir'', ''FileExists''])
   \<and> Status IOError ''Failed getting information for path''
       \<noteq> Status IOError ''Cannot list directory''"
  using demo_secret
  by (simp add: StatSelector_listing_failed [OF demo_secret(1)] demo_select_def IsIOError_def)

text \<open>
  Claim C7. \<open>StatSelector\<close> at depth \<open>d\<close> is the walk that descends as many levels as
  remain below \<open>max_recursion\<close>: with \<open>recursive\<close> set, \<open>max_recursion - d\<close> levels
  (none when the depth has reached \<open>max_recursion\<close>), and with \<open>recursive\<close> unset, none
  at any depth. So a child directory met at depth \<open>d\<close> is descended into, before its
  next sibling, exactly when \<open>recursive\<close> is set and \<open>d < max_recursion\<close>. The walk
  with no level left is the listing of the direct children, whatever their types, and
  this is what \<open>GetTargetStats\<close> returns with \<open>max_recursion = 0\<close>.
\<close>

theorem descent_is_bounded_by_max_recursion:
  "(recursive select \<longrightarrow>
      StatSelector w dir_fn select d out s =
        walk_levels w select (nat (max_recursion select - d)) dir_fn out s)
   \<and> (\<not> recursive select \<longrightarrow>
      StatSelector w dir_fn select d out s = walk_levels w select 0 dir_fn out s)
   \<and> walk_levels w select 0 dir_fn out s = direct_children w dir_fn select out s
   \<and> (\<not> recursive select \<or> max_recursion select \<le> d \<longrightarrow>
      StatSelector w dir_fn select d out s = direct_children w dir_fn select out s)
   \<and> (max_recursion select = 0 \<and> FromString w (base_dir select) = Inr fn \<longrightarrow>
      GetTargetStats_selector w select s = direct_children w fn select [] s)
   \<and> (FromString w (base_dir select) = Inr fn \<longrightarrow>
      GetTargetStats_selector w select s =
        walk_levels w select (if recursive select then nat (max_recursion select) else 0)
          fn [] s)
   \<and> (recursive select \<and> ftype st = Directory
        \<and> StatFile w (ToNative w (Join w dir_fn c)) s = (Inr st, s1) \<longrightarrow>
      StatSelector_loop w dir_fn (c # cs) select d out s =
        (if d < max_recursion select
         then (case StatSelector w (Join w dir_fn c) select (d + 1) (out @ [st]) s1 of
                 (Inl e, s2) \<Rightarrow> (Inl e, s2)
               | (Inr out2, s2) \<Rightarrow> StatSelector_loop w dir_fn cs select d out2 s2)
         else StatSelector_loop w dir_fn cs select d (out @ [st]) s1))"
proof (intro conjI impI)
  assume "recursive select"
  then show "StatSelector w dir_fn select d out s =
        walk_levels w select (nat (max_recursion select - d)) dir_fn out s"
    using StatSelector_is_walk [of w dir_fn select d out s] by simp
next
  assume "\<not> recursive select"
  then show "StatSelector w dir_fn select d out s = walk_levels w select 0 dir_fn out s"
    using StatSelector_is_walk [of w dir_fn select d out s] by simp
next
  show "walk_levels w select 0 dir_fn out s = direct_children w dir_fn select out s"
    by (rule walk_zero_is_direct_children)
next
  assume "\<not> recursive select \<or> max_recursion select \<le> d"
  then have "\<not> (recursive select \<and> d < max_recursion select)"
    by auto
  then show "StatSelector w dir_fn select d out s = direct_children w dir_fn select out s"
    by (rule StatSelector_is_direct_children)
next
  assume a: "max_recursion select = 0 \<and> FromString w (base_dir select) = Inr fn"
  then have "\<not> (recursive select \<and> 0 < max_recursion select)"
    by simp
  then have "StatSelector w fn select 0 [] s = direct_children w fn select [] s"
    by (rule StatSelector_is_direct_children)
  then show "GetTargetStats_selector w select s = direct_children w fn select [] s"
    using a by (simp add: GetTargetStats_selector_def)
next
  assume "FromString w (base_dir select) = Inr fn"
  then show "GetTargetStats_selector w select s =
        walk_levels w select (if recursive select then nat (max_recursion select) else 0)
          fn [] s"
    using StatSelector_is_walk [of w fn select 0 "[]" s]
    by (simp add: GetTargetStats_selector_def)
next
  assume a: "recursive select \<and> ftype st = Directory
        \<and> StatFile w (ToNative w (Join w dir_fn c)) s = (Inr st, s1)"
  then show "StatSelector_loop w dir_fn (c # cs) select d out s =
        (if d < max_recursion select
         then (case StatSelector w (Join w dir_fn c) select (d + 1) (out @ [st]) s1 of
                 (Inl e, s2) \<Rightarrow> (Inl e, s2)
               | (Inr out2, s2) \<Rightarrow> StatSelector_loop w dir_fn cs select d out2 s2)
         else StatSelector_loop w dir_fn cs select d (out @ [st]) s1)"
    using loop_directory_child [of w dir_fn c s st s1 cs select d out] by simp
qed

theorem descent_is_bounded_by_max_recursion_witness:
  "recursive (demo_select True 1 False ''/tmp/t'')
   \<and> nat (max_recursion (demo_select True 1 False ''/tmp/t'') - 0) = Suc 0
   \<and> StatSelector demo_sys ''/tmp/t'' (demo_select True 1 False ''/tmp/t'') 0 [] [] =
       (Inr [\<lparr>path = ''/tmp/t/a'', ftype = File, fsize = 10, mtime = 200000000000\<rparr>,
             \<lparr>path = ''/tmp/t/b'', ftype = Directory, fsize = - 1, mtime = 300000000000\<rparr>,
             \<lparr>path = ''/tmp/t/b/c'', ftype = File, fsize = 5, mtime = 400000000000\<rparr>],
        [''ListDir'', ''stat'', ''stat'', ''ListDir'', ''stat''])
   \<and> max_recursion (demo_select True 0 False ''/tmp/t'') = 0
   \<and> FromString demo_sys (base_dir (demo_select True 0 False ''/tmp/t'')) = Inr ''/tmp/t''
   \<and> GetTargetStats_selector demo_sys (demo_select True 0 False ''/tmp/t'') [] =
       (Inr [\<lparr>path = ''/tmp/t/a'', ftype = File, fsize = 10, mtime = 200000000000\<rparr>,
             \<lparr>path = ''/tmp/t/b'', ftype = Directory, fsize = - 1, mtime = 300000000000\<rparr>],
        [''ListDir'', ''stat'', ''stat''])"
proof -
  have r: "recursive (demo_select True 1 False ''/tmp/t'')"
    and n: "nat (max_recursion (demo_select True 1 False ''/tmp/t'') - 0) = Suc 0"
    and a: "max_recursion (demo_select True 0 False ''/tmp/t'') = 0"
    and b: "FromString demo_sys (base_dir (demo_select True 0 False ''/tmp/t'')) = Inr ''/tmp/t''"
    by (simp_all add: demo_select_def demo_paths)
  have one: "StatSelector demo_sys ''/tmp/t'' (demo_select True 1 False ''/tmp/t'') 0 [] [] =
       walk_levels demo_sys (demo_select True 1 False ''/tmp/t'') (Suc 0) ''/tmp/t'' [] []"
    using descent_is_bounded_by_max_recursion [of "demo_select True 1 False ''/tmp/t''"
        demo_sys "''/tmp/t''" 0 "[]" "[]"] r n
    by simp
  show ?thesis
    using descent_is_bounded_by_max_recursion [of "demo_select True 0 False ''/tmp/t''"
        demo_sys "''/tmp/t''" 0 "[]" "[]" "''/tmp/t''"]
      r n a b one demo_walk_one_level demo_direct_children
    by simp
qed

section \<open>The facade\<close>

text \<open>
  Claim C1, as amended. When the path resolver rejects the path, each of
  \<open>GetTargetStats\<close> (one path and selector), \<open>CreateDir\<close>, \<open>DeleteDir\<close>,
  \<open>DeleteDirContents\<close>, \<open>DeleteFile\<close>, \<open>Move\<close>, \<open>CopyFile\<close> (for either of the two
  paths), \<open>OpenOutputStream\<close> and \<open>OpenAppendStream\<close> returns the resolver's error and
  the state of the file system it was given, whatever the collaborators are.
  \<open>OpenInputStream\<close> and \<open>OpenInputFile\<close> do not call the resolver: they hand the
  string to the memory-mapped or the buffered reader, as \<open>use_mmap\<close> says, and return
  what it returns.
\<close>

theorem facade_resolves_before_acting:
  assumes "FromString w p = Inl e"
  shows "GetTargetStats w p s = (Inl e, s)
       \<and> (base_dir select = p \<longrightarrow> GetTargetStats_selector w select s = (Inl e, s))
       \<and> CreateDir w p r s = (Inl e, s)
       \<and> DeleteDir w p s = (Inl e, s)
       \<and> DeleteDirContents w p s = (Inl e, s)
       \<and> DeleteFile w p s = (Inl e, s)
       \<and> Move w p q s = (Inl e, s)
       \<and> (FromString w q = Inr qfn \<longrightarrow> Move w q p s = (Inl e, s))
       \<and> CopyFile w options p q s = (Inl e, s)
       \<and> (FromString w q = Inr qfn \<longrightarrow> CopyFile w options q p s = (Inl e, s))
       \<and> OpenOutputStream w p s = (Inl e, s)
       \<and> OpenAppendStream w p s = (Inl e, s)
       \<and> OpenInputStream w options p s =
           (if use_mmap options
            then apfst (map_sum id MemoryMappedFile) (MemoryMappedFile_Open w p READ s)
            else apfst (map_sum id ReadableFile) (ReadableFile_Open w p s))
       \<and> OpenInputFile w options p s =
           (if use_mmap options
            then apfst (map_sum id MemoryMappedFile) (MemoryMappedFile_Open w p READ s)
            else apfst (map_sum id ReadableFile) (ReadableFile_Open w p s))"
proof -
  have stats: "GetTargetStats w p s = (Inl e, s)"
    using assms by (simp add: GetTargetStats_def)
  have sel: "base_dir select = p \<longrightarrow> GetTargetStats_selector w select s = (Inl e, s)"
    using assms by (simp add: GetTargetStats_selector_def)
  have dirs: "CreateDir w p r s = (Inl e, s)" "DeleteDir w p s = (Inl e, s)"
    "DeleteDirContents w p s = (Inl e, s)" "DeleteFile w p s = (Inl e, s)"
    using assms by (simp_all add: CreateDir_def DeleteDir_def DeleteDirContents_def DeleteFile_def)
  have mv: "Move w p q s = (Inl e, s)"
    "FromString w q = Inr qfn \<longrightarrow> Move w q p s = (Inl e, s)"
    using assms by (simp_all add: Move_def)
  have cp: "CopyFile w options p q s = (Inl e, s)"
    "FromString w q = Inr qfn \<longrightarrow> CopyFile w options q p s = (Inl e, s)"
    using assms by (simp_all add: CopyFile_def)
  have outs: "OpenOutputStream w p s = (Inl e, s)" "OpenAppendStream w p s = (Inl e, s)"
    using assms
    by (simp_all add: OpenOutputStream_def OpenAppendStream_def OpenOutputStreamGeneric_def)
  have gen: "OpenInputStreamGeneric w p options s =
           (if use_mmap options
            then apfst (map_sum id MemoryMappedFile) (MemoryMappedFile_Open w p READ s)
            else apfst (map_sum id ReadableFile) (ReadableFile_Open w p s))"
    by (simp add: OpenInputStreamGeneric_def split: prod.splits sum.splits)
  have ins: "OpenInputStream w options p s = OpenInputStreamGeneric w p options s"
    "OpenInputFile w options p s = OpenInputStreamGeneric w p options s"
    by (simp_all add: OpenInputStream_def OpenInputFile_def)
  show ?thesis
    unfolding ins gen using stats sel dirs mv cp outs by blast
qed

theorem facade_resolves_before_acting_witness:
  "FromString demo_sys [] = Inl (Status Invalid ''Invalid path'')
   \<and> DeleteFile demo_sys [] [] = (Inl (Status Invalid ''Invalid path''), [])
   \<and> Move demo_sys ''/tmp/t/a'' [] [] = (Inl (Status Invalid ''Invalid path''), [])
   \<and> OpenInputFile demo_sys \<lparr>use_mmap = True\<rparr> [] [] =
        (Inr (MemoryMappedFile 3), [''MemoryMappedFile::Open''])"
proof -
  have h: "FromString demo_sys [] = Inl (Status Invalid ''Invalid path'')"
    by (simp add: demo_sys_def)
  have q: "FromString demo_sys ''/tmp/t/a'' = Inr ''/tmp/t/a''"
    by (simp add: demo_sys_def)
  have m: "MemoryMappedFile_Open demo_sys [] READ [] = (Inr 3, [''MemoryMappedFile::Open''])"
    by (simp add: demo_sys_def)
  show ?thesis
    using facade_resolves_before_acting [OF h, of "[]" "demo_select False 0 False []" False "''/tmp/t/a''"
        "''/tmp/t/a''" "\<lparr>use_mmap = True\<rparr>"] h q m
    by simp
qed

text \<open>
  Claim C1 as stated fails for the input streams: on a path that the resolver rejects,
  \<open>OpenInputStream\<close> calls the reader and returns its stream.
\<close>

theorem open_input_skips_resolver_counterexample:
  "FromString demo_sys [] = Inl (Status Invalid ''Invalid path'')
   \<and> OpenInputStream demo_sys \<lparr>use_mmap = False\<rparr> [] [] =
        (Inr (ReadableFile 3), [''ReadableFile::Open''])"
  by (simp add: demo_sys_def OpenInputStream_def OpenInputStreamGeneric_def)

text \<open>
  Claim C8. When the path resolves and the delete primitive succeeds, \<open>DeleteDir\<close>,
  \<open>DeleteDirContents\<close> and \<open>DeleteFile\<close> fail with an \<open>IOError\<close> whose message is
  "Directory does not exist: 'p'" (for a file, "File does not exist: 'p'") when the
  primitive reports that nothing was there, and succeed when it reports a deletion.
  For \<open>GetTargetStats\<close> the same absence is a successful \<open>NonExistent\<close> record.
\<close>

theorem delete_of_missing_target_fails:
  assumes "FromString w p = Inr fn"
  shows "(internal_DeleteDirTree w fn s = (Inr False, s1) \<longrightarrow>
            DeleteDir w p s =
              (Inl (Status IOError (''Directory does not exist: '' @ [CHR 0x27] @ p @ [CHR 0x27])),
               s1))
       \<and> (internal_DeleteDirTree w fn s = (Inr True, s1) \<longrightarrow> DeleteDir w p s = (Inr (), s1))
       \<and> (internal_DeleteDirContents w fn s = (Inr False, s2) \<longrightarrow>
            DeleteDirContents w p s =
              (Inl (Status IOError (''Directory does not exist: '' @ [CHR 0x27] @ p @ [CHR 0x27])),
               s2))
       \<and> (internal_DeleteDirContents w fn s = (Inr True, s2) \<longrightarrow>
            DeleteDirContents w p s = (Inr (), s2))
       \<and> (internal_DeleteFile w fn s = (Inr False, s3) \<longrightarrow>
            DeleteFile w p s =
              (Inl (Status IOError (''File does not exist: '' @ [CHR 0x27] @ p @ [CHR 0x27])), s3))
       \<and> (internal_DeleteFile w fn s = (Inr True, s3) \<longrightarrow> DeleteFile w p s = (Inr (), s3))
       \<and> (stat w (ToNative w fn) s = (Inl ENOENT, s4) \<longrightarrow>
            (\<exists>st. GetTargetStats w p s = (Inr st, s4) \<and> ftype st = NonExistent))"
  using assms
  by (simp add: DeleteDir_def DeleteDirContents_def DeleteFile_def GetTargetStats_def
      StatFile_def)

theorem delete_of_missing_target_fails_witness:
  "FromString demo_sys ''/nothing'' = Inr ''/nothing''
   \<and> internal_DeleteFile demo_sys ''/nothing'' [] = (Inr False, [''DeleteFile''])
   \<and> DeleteFile demo_sys ''/nothing'' [] =
        (Inl (Status IOError (''File does not exist: '' @ [CHR 0x27] @ ''/nothing'' @ [CHR 0x27])),
         [''DeleteFile''])
   \<and> internal_DeleteDirTree demo_sys ''/nothing'' [] = (Inr False, [''DeleteDirTree''])
   \<and> DeleteDir demo_sys ''/nothing'' [] =
        (Inl (Status IOError
           (''Directory does not exist: '' @ [CHR 0x27] @ ''/nothing'' @ [CHR 0x27])),
         [''DeleteDirTree''])
   \<and> FromString demo_sys ''/tmp/t/a'' = Inr ''/tmp/t/a''
   \<and> internal_DeleteFile demo_sys ''/tmp/t/a'' [] = (Inr True, [''DeleteFile''])
   \<and> DeleteFile demo_sys ''/tmp/t/a'' [] = (Inr (), [''DeleteFile''])"
proof -
  have a: "FromString demo_sys ''/nothing'' = Inr ''/nothing''"
    and b: "FromString demo_sys ''/tmp/t/a'' = Inr ''/tmp/t/a''"
    by (simp_all add: demo_sys_def)
  have c: "internal_DeleteFile demo_sys ''/nothing'' [] = (Inr False, [''DeleteFile''])"
    "internal_DeleteDirTree demo_sys ''/nothing'' [] = (Inr False, [''DeleteDirTree''])"
    "internal_DeleteFile demo_sys ''/tmp/t/a'' [] = (Inr True, [''DeleteFile''])"
    by (simp_all add: demo_sys_def demo_stat_def)
  show ?thesis
    using delete_of_missing_target_fails [OF a, of "[]" "[''DeleteDirTree'']" "[]"
        "[''DeleteFile'']"]
      delete_of_missing_target_fails [OF b, of "[]" "[]" "[]" "[''DeleteFile'']"]
      a b c
    by simp
qed

text \<open>
  Claim C9. When source and destination resolve to the same native path, \<open>CopyFile\<close>
  succeeds and the state of the file system is the one it started from: no stream was
  opened, read, written or closed. So \<open>CopyFile\<close> of a resolvable path onto itself
  always succeeds.
\<close>

theorem copy_file_onto_itself:
  "(FromString w src = Inr sfn \<and> FromString w dest = Inr dfn
      \<and> ToNative w sfn = ToNative w dfn \<longrightarrow> CopyFile w options src dest s = (Inr (), s))
   \<and> (FromString w p = Inr fn \<longrightarrow> CopyFile w options p p s = (Inr (), s))"
  by (simp add: CopyFile_def)

theorem copy_file_onto_itself_witness:
  "FromString demo_sys ''/tmp/t/a'' = Inr ''/tmp/t/a''
   \<and> CopyFile demo_sys \<lparr>use_mmap = False\<rparr> ''/tmp/t/a'' ''/tmp/t/a'' [] = (Inr (), [])"
proof -
  have a: "FromString demo_sys ''/tmp/t/a'' = Inr ''/tmp/t/a''"
    by (simp add: demo_sys_def)
  show ?thesis
    using copy_file_onto_itself [of demo_sys "''/tmp/t/a''" "''/tmp/t/a''" "''/tmp/t/a''"
        "''/tmp/t/a''" "\<lparr>use_mmap = False\<rparr>" "[]" "''/tmp/t/a''" "''/tmp/t/a''"] a
    by simp
qed

end
